theory Spec2Isabelle
  imports Main
begin

section \<open>Platform values seen by the request layer\<close>

text \<open>
  A parsed number, given by the two things JavaScript lets this code observe of it:
  whether it is zero (and so falsy), and the text \<open>ToString\<close> prints for it.
\<close>

datatype number = Number (is_zero: bool) (printed: string)

text \<open>
  Values produced by \<open>response.json()\<close>. An object is its list of members in document
  order (a later duplicate key wins, as in \<open>JSON.parse\<close>).
\<close>

datatype json =
    JNull
  | JBool bool
  | JNum number
  | JStr string
  | JArr "json list"
  | JObj "(string \<times> json) list"

text \<open>A fetch \<open>Response\<close>: its status code (an unsigned short) and what \<open>response.json()\<close> settles
  to (\<open>None\<close> when the body is not JSON and the promise rejects).\<close>

record response =
  status :: nat
  json_body :: "json option"

text \<open>\<open>response.ok\<close> is the platform's getter: the status is in the range 200-299.\<close>

definition ok :: "response \<Rightarrow> bool" where
  "ok r = (200 \<le> status r \<and> status r \<le> 299)"

text \<open>An error object as the code reads it: \<open>error.name\<close> and \<open>error.message\<close>.\<close>

record js_error =
  err_name :: string
  err_message :: string

text \<open>What a promise rejects with, as far as a caller can tell the cases apart:
  an \<open>Error\<close> built by the code with the given message, the \<open>TypeError\<close> of reading
  the named property of \<open>null\<close> (its text is engine-defined), the \<open>TypeError\<close> of
  converting to a string an object that has no usable \<open>toString\<close>, and the \<open>SyntaxError\<close>
  of a body that is not JSON.\<close>

datatype exn =
    Error string
  | TypeError_null_read string
  | TypeError_to_primitive
  | SyntaxError_json

text \<open>
  One call of the platform's \<open>fetch\<close>: how long the network takes to settle and what it
  settles to. With the abort signal armed for \<open>timeout\<close> milliseconds, an attempt that
  takes longer is rejected with the platform's \<open>AbortError\<close> instead.
\<close>

datatype settled = Resolved response | Rejected js_error

datatype attempt = Attempt (duration: int) (settles: settled)

definition abort_error :: js_error where
  "abort_error = \<lparr>err_name = ''AbortError'', err_message = ''The operation was aborted.''\<rparr>"

definition fetch_signal :: "int \<Rightarrow> attempt \<Rightarrow> settled" where
  "fetch_signal timeout a = (if timeout < duration a then Rejected abort_error else settles a)"

section \<open>fetchWithRetry\<close>

text \<open>The observable trace of one call: how many times \<open>fetch\<close> was called and the
  delays (in milliseconds) slept between attempts, in order.\<close>

record trace =
  attempts :: nat
  delays :: "int list"

definition attempted :: "trace \<Rightarrow> trace" where
  "attempted tr = tr\<lparr>attempts := Suc (attempts tr)\<rparr>"

definition waited :: "int \<Rightarrow> trace \<Rightarrow> trace" where
  "waited d tr = tr\<lparr>delays := delays tr @ [d]\<rparr>"

record fetch_options =
  retries :: "int option"
  retryDelay :: "int option"
  timeout :: "int option"

definition timeout_message :: string where
  "timeout_message =
     ''Request timeout. The server might be waking up (this can take up to 60 seconds on free tier). Please try again.''"

definition network_message :: string where
  "network_message = ''Network error. Please check your connection or try again in a moment.''"

text \<open>The text thrown after the loop: \<open>lastError?.message || "Network error. ..."\<close>.\<close>

definition last_error_message :: "js_error option \<Rightarrow> string" where
  "last_error_message lastError =
     (case lastError of
        None \<Rightarrow> network_message
      | Some e \<Rightarrow> if err_message e = [] then network_message else err_message e)"

text \<open>
  The \<open>for (let i = 0; i <= retries; i++)\<close> loop, entered at \<open>i\<close>. \<open>net i\<close> is what the
  network does on the call of iteration \<open>i\<close>. A rejection on the last iteration leaves the
  \<open>catch\<close> block without throwing, so the loop test runs once more, fails, and the
  \<open>throw\<close> after the loop is reached.
\<close>

function fetch_loop ::
  "(int \<Rightarrow> attempt) \<Rightarrow> int \<Rightarrow> int \<Rightarrow> int \<Rightarrow> int \<Rightarrow> js_error option \<Rightarrow> trace
     \<Rightarrow> (exn + response) \<times> trace" where
  "fetch_loop net rs rd tmo i lastError tr =
     (if i \<le> rs then
        (case fetch_signal tmo (net i) of
           Resolved resp \<Rightarrow>
             if ok resp \<or> (400 \<le> status resp \<and> status resp < 500) then
               (Inr resp, attempted tr)
             else if i < rs then
               fetch_loop net rs rd tmo (i + 1) lastError (waited (rd * (i + 1)) (attempted tr))
             else (Inr resp, attempted tr)
         | Rejected err \<Rightarrow>
             if err_name err = ''AbortError'' then
               (Inl (Error timeout_message), attempted tr)
             else if i < rs then
               fetch_loop net rs rd tmo (i + 1) (Some err) (waited (rd * (i + 1)) (attempted tr))
             else fetch_loop net rs rd tmo (i + 1) (Some err) (attempted tr))
      else (Inl (Error (last_error_message lastError)), tr))"
  by pat_completeness auto
termination
  by (relation "measure (\<lambda>(net, rs, rd, tmo, i, lastError, tr). nat (rs + 1 - i))") auto

text \<open>The destructuring defaults: \<open>retries = 3\<close>, \<open>retryDelay = 1000\<close>,
  \<open>timeout = 60000\<close>.\<close>

definition opt_retries :: "fetch_options \<Rightarrow> int" where
  "opt_retries options = (case retries options of None \<Rightarrow> 3 | Some r \<Rightarrow> r)"

definition opt_retryDelay :: "fetch_options \<Rightarrow> int" where
  "opt_retryDelay options = (case retryDelay options of None \<Rightarrow> 1000 | Some d \<Rightarrow> d)"

definition opt_timeout :: "fetch_options \<Rightarrow> int" where
  "opt_timeout options = (case timeout options of None \<Rightarrow> 60000 | Some t \<Rightarrow> t)"

definition fetchWithRetry ::
  "(int \<Rightarrow> attempt) \<Rightarrow> fetch_options \<Rightarrow> (exn + response) \<times> trace" where
  "fetchWithRetry net options =
     fetch_loop net (opt_retries options) (opt_retryDelay options) (opt_timeout options)
       0 None \<lparr>attempts = 0, delays = []\<rparr>"

subsection \<open>Vocabulary for the properties of the loop\<close>

text \<open>A network that behaves the same way on every call.\<close>

definition every_attempt :: "attempt \<Rightarrow> int \<Rightarrow> attempt" where
  "every_attempt a i = a"

text \<open>An attempt the loop does not end on when retries remain: both early exits of
  the source (\<open>response.ok || 4xx\<close> and \<open>AbortError\<close>) are missed.\<close>

definition retried :: "int \<Rightarrow> attempt \<Rightarrow> bool" where
  "retried tmo a =
     (case fetch_signal tmo a of
        Resolved resp \<Rightarrow> \<not> (ok resp \<or> (400 \<le> status resp \<and> status resp < 500))
      | Rejected err \<Rightarrow> err_name err \<noteq> ''AbortError'')"

text \<open>A 5xx response or a network-level failure, received within the timeout.\<close>

definition server_or_network_failure :: "int \<Rightarrow> attempt \<Rightarrow> bool" where
  "server_or_network_failure tmo a =
     (case fetch_signal tmo a of
        Resolved resp \<Rightarrow> 500 \<le> status resp \<and> status resp \<le> 599
      | Rejected err \<Rightarrow> err_name err \<noteq> ''AbortError'')"

text \<open>The trace after the retried attempts \<open>i, \<dots>, k - 1\<close>: one call each, and the
  linear back-off \<open>retryDelay * (j + 1)\<close> after attempt \<open>j\<close>.\<close>

definition backoff :: "int \<Rightarrow> int \<Rightarrow> int \<Rightarrow> trace \<Rightarrow> trace" where
  "backoff rd i k tr =
     \<lparr>attempts = attempts tr + nat (k - i),
      delays = delays tr @ map (\<lambda>j. rd * (j + 1)) [i..k - 1]\<rparr>"

text \<open>A network that follows a script for its first calls and then keeps giving the
  same answer.\<close>

definition scripted :: "attempt list \<Rightarrow> attempt \<Rightarrow> int \<Rightarrow> attempt" where
  "scripted as a i = (if 0 \<le> i \<and> nat i < length as then as ! nat i else a)"

section \<open>fetchJSON\<close>

text \<open>JavaScript's truthiness of a parsed JSON value.\<close>

fun truthy :: "json \<Rightarrow> bool" where
  "truthy JNull = False"
| "truthy (JBool b) = b"
| "truthy (JNum n) = (\<not> is_zero n)"
| "truthy (JStr s) = (s \<noteq> [])"
| "truthy (JArr xs) = True"
| "truthy (JObj kvs) = True"

text \<open>
  Reading the property \<open>p\<close> of a parsed value, for the two names the code reads
  (\<open>error\<close> and \<open>message\<close>): \<open>null\<close> throws a \<open>TypeError\<close>; an object gives its member, the
  last one of that name, or \<open>undefined\<close> (\<open>None\<close>); strings, numbers, booleans and arrays
  have no property of either name.
\<close>

fun get_prop :: "json \<Rightarrow> string \<Rightarrow> exn + json option" where
  "get_prop JNull p = Inl (TypeError_null_read p)"
| "get_prop (JObj kvs) p = Inr (map_of (rev kvs) p)"
| "get_prop (JBool b) p = Inr None"
| "get_prop (JNum n) p = Inr None"
| "get_prop (JStr s) p = Inr None"
| "get_prop (JArr xs) p = Inr None"

text \<open>Decimal digits of a number, as a template literal prints a status code.\<close>

definition digit :: "nat \<Rightarrow> char" where
  "digit d = ''0123456789'' ! d"

fun show_nat :: "nat \<Rightarrow> string" where
  "show_nat n = (if n < 10 then [digit n] else show_nat (n div 10) @ [digit (n mod 10)])"

fun join_comma :: "string list \<Rightarrow> string" where
  "join_comma [] = []"
| "join_comma [x] = x"
| "join_comma (x # y # zs) = x @ '','' @ join_comma (y # zs)"

text \<open>
  The string \<open>new Error(v)\<close> stores as its message: JavaScript's \<open>ToString\<close> of \<open>v\<close>. An
  array is joined with commas, with nothing for a \<open>null\<close> element. An object prints as
  \<open>[object Object]\<close> through the inherited \<open>toString\<close>; a parsed object with a member
  named \<open>toString\<close> hides that method by a value that cannot be called, and the
  conversion throws a \<open>TypeError\<close>, which leaves \<open>new Error\<close> as an exception.
\<close>

fun to_string :: "json \<Rightarrow> exn + string"
  and to_string_items :: "json list \<Rightarrow> exn + string list" where
  "to_string JNull = Inr ''null''"
| "to_string (JBool b) = Inr (if b then ''true'' else ''false'')"
| "to_string (JNum n) = Inr (printed n)"
| "to_string (JStr s) = Inr s"
| "to_string (JArr xs) =
     (case to_string_items xs of Inl e \<Rightarrow> Inl e | Inr ss \<Rightarrow> Inr (join_comma ss))"
| "to_string (JObj kvs) =
     (if map_of (rev kvs) ''toString'' = None then Inr ''[object Object]''
      else Inl TypeError_to_primitive)"
| "to_string_items [] = Inr []"
| "to_string_items (x # xs) =
     (case (if x = JNull then Inr [] else to_string x) of
        Inl e \<Rightarrow> Inl e
      | Inr t \<Rightarrow>
          (case to_string_items xs of Inl e \<Rightarrow> Inl e | Inr ss \<Rightarrow> Inr (t # ss)))"

text \<open>The left operand of \<open>||\<close> when it is truthy.\<close>

definition truthy_value :: "json option \<Rightarrow> json option" where
  "truthy_value v = (case v of None \<Rightarrow> None | Some j \<Rightarrow> if truthy j then Some j else None)"

text \<open>
  \<open>errorData.error || errorData.message || `HTTP error! status: ${response.status}`\<close>,
  evaluated left to right and converted to the message of the \<open>Error\<close>; a property read
  or a conversion that throws ends the evaluation.
\<close>

definition error_text :: "json \<Rightarrow> nat \<Rightarrow> exn + string" where
  "error_text errorData st =
     (case get_prop errorData ''error'' of
        Inl e \<Rightarrow> Inl e
      | Inr a \<Rightarrow>
          (case truthy_value a of
             Some v \<Rightarrow> to_string v
           | None \<Rightarrow>
               (case get_prop errorData ''message'' of
                  Inl e \<Rightarrow> Inl e
                | Inr b \<Rightarrow>
                    (case truthy_value b of
                       Some v \<Rightarrow> to_string v
                     | None \<Rightarrow> Inr (''HTTP error! status: '' @ show_nat st)))))"

text \<open>
  \<open>fetchJSON\<close>: an error of \<open>fetchWithRetry\<close> propagates; a response that is not \<open>ok\<close> has
  its body parsed, with \<open>{}\<close> standing in for a body that does not parse
  (\<open>.catch(() => ({}))\<close>), and an \<open>Error\<close> with the chosen text is thrown; an \<open>ok\<close> response
  gives its parsed body.
\<close>

definition fetchJSON :: "(int \<Rightarrow> attempt) \<Rightarrow> fetch_options \<Rightarrow> exn + json" where
  "fetchJSON net options =
     (case fst (fetchWithRetry net options) of
        Inl e \<Rightarrow> Inl e
      | Inr resp \<Rightarrow>
          if \<not> ok resp then
            (let errorData = (case json_body resp of None \<Rightarrow> JObj [] | Some d \<Rightarrow> d)
             in case error_text errorData (status resp) of
                  Inl e \<Rightarrow> Inl e
                | Inr m \<Rightarrow> Inl (Error m))
          else (case json_body resp of None \<Rightarrow> Inl SyntaxError_json | Some d \<Rightarrow> Inr d))"

section \<open>The page component: state and handlers\<close>

text \<open>
  Strings are lists of 8-bit characters. \<open>String.prototype.trim\<close> removes white space
  and line terminators from both ends; in this range they are tab, line feed, vertical
  tab, form feed, carriage return, space and the no-break space. \<open>!s.trim()\<close> holds when
  nothing is left.
\<close>

definition is_whitespace :: "char \<Rightarrow> bool" where
  "is_whitespace c = (of_char c \<in> {9, 10, 11, 12, 13, 32, 160 :: nat})"

definition trim :: "string \<Rightarrow> string" where
  "trim s = rev (dropWhile is_whitespace (rev (dropWhile is_whitespace s)))"

definition blank :: "string \<Rightarrow> bool" where
  "blank s = (trim s = [])"

datatype step = Input | Questions | Mock | Complete

datatype question_type = Behavioral | Technical | Situational

datatype level = Easy | Medium | Hard

datatype question_filter = Only question_type | All_types

record question =
  qid :: string
  question :: string
  qtype :: question_type
  qdifficulty :: level
  category :: string

text \<open>
  The \<open>useState\<close> cells of \<open>Home\<close>, with the types of their declarations.
  \<open>ticking\<close> tells whether the interval held in \<open>timerIntervalRef\<close> is running.
\<close>

record home =
  jobRole :: string
  company :: string
  difficulty :: level
  seniority :: string
  numberOfQuestions :: int
  questionType :: question_filter
  questions :: "question list"
  isLoading :: bool
  error :: string
  currentStep :: step
  savedQuestionSetId :: "string option"
  currentQuestionIndex :: int
  currentAnswer :: string
  feedback :: string
  isSubmittingAnswer :: bool
  showFeedback :: bool
  followUpQuestion :: string
  isFetchingFollowUp :: bool
  timer :: int
  ticking :: bool

definition initial_home :: home where
  "initial_home =
     \<lparr>jobRole = [], company = [], difficulty = Medium, seniority = ''mid-level'',
      numberOfQuestions = 5, questionType = All_types, questions = [], isLoading = False,
      error = [], currentStep = Input, savedQuestionSetId = None, currentQuestionIndex = 0,
      currentAnswer = [], feedback = [], isSubmittingAnswer = False, showFeedback = False,
      followUpQuestion = [], isFetchingFollowUp = False, timer = 0, ticking = False\<rparr>"

text \<open>The signed-in user of \<open>useSession\<close>, as far as a request body reads it.\<close>

record user =
  email :: "string option"

text \<open>The network calls of the handlers: the endpoint and the JSON body. The call that
  registers the user carries the generation request its handler issues next.\<close>

record generate_request =
  req_authenticated :: bool
  req_jobRole :: string
  req_company :: string
  req_difficulty :: level
  req_experience :: string
  req_numberOfQuestions :: int
  req_questionType :: question_filter
  req_userId :: string

record feedback_request =
  req_question :: "string option"
  req_answer :: string
  req_timeSpent :: int

record followup_request =
  req_originalQuestion :: "string option"
  req_followup_answer :: string

datatype call =
    AuthUser generate_request
  | GenerateQuestions generate_request
  | GenerateFeedback feedback_request
  | GenerateFollowUp followup_request

text \<open>
  How an awaited call ends for its handler: \<open>Threw\<close> when \<open>fetch\<close> or \<open>response.json()\<close>
  rejects or reading the parsed body throws, \<open>NotOk\<close> when \<open>response.ok\<close> is false, and
  \<open>Data\<close> with the parsed body otherwise. Bodies have the fields the handlers read,
  typed as the state cells they are stored in; a field may be missing.
\<close>

datatype 'a reply = Threw | NotOk | Data 'a

record questions_body =
  body_questions :: "question list option"
  body_questionSetId :: "string option"

text \<open>\<open>questions[currentQuestionIndex]?.question\<close>: \<open>undefined\<close> outside the array.\<close>

definition current_question :: "home \<Rightarrow> string option" where
  "current_question s =
     (if 0 \<le> currentQuestionIndex s \<and> currentQuestionIndex s < int (length (questions s))
      then Some (question (questions s ! nat (currentQuestionIndex s)))
      else None)"

definition generation_request :: "user option \<Rightarrow> home \<Rightarrow> generate_request" where
  "generation_request session s =
     \<lparr>req_authenticated = (session \<noteq> None),
      req_jobRole = jobRole s, req_company = company s, req_difficulty = difficulty s,
      req_experience = seniority s, req_numberOfQuestions = numberOfQuestions s,
      req_questionType = questionType s,
      req_userId =
        (case session of
           None \<Rightarrow> ''anonymous''
         | Some u \<Rightarrow>
             (case email u of
                None \<Rightarrow> ''anonymous''
              | Some e \<Rightarrow> if e = [] then ''anonymous'' else e))\<rparr>"

text \<open>
  \<open>handleGenerateQuestions\<close> up to its first \<open>await\<close>: the validation, the two setters,
  and the first call (the registration of a signed-in user, else the generation).
\<close>

definition handleGenerateQuestions :: "user option \<Rightarrow> home \<Rightarrow> home \<times> call list" where
  "handleGenerateQuestions session s =
     (if blank (jobRole s) \<or> blank (company s) then
        (s\<lparr>error := ''Please fill both fields''\<rparr>, [])
      else
        (s\<lparr>isLoading := True, error := []\<rparr>,
         [if session \<noteq> None then AuthUser (generation_request session s)
          else GenerateQuestions (generation_request session s)]))"

text \<open>After the registration call: its response is not inspected; a rejection is
  caught like any other failure.\<close>

definition handleGenerateQuestions_registered ::
  "bool \<Rightarrow> generate_request \<Rightarrow> home \<Rightarrow> home \<times> call list" where
  "handleGenerateQuestions_registered resolved req s =
     (if resolved then (s, [GenerateQuestions req])
      else (s\<lparr>error := ''Failed to generate questions. Please try again.'',
              isLoading := False\<rparr>, []))"

text \<open>After the generation call: \<open>try\<close>, \<open>catch\<close> and \<open>finally\<close>.\<close>

definition handleGenerateQuestions_done :: "questions_body reply \<Rightarrow> home \<Rightarrow> home" where
  "handleGenerateQuestions_done r s =
     (case r of
        Data d \<Rightarrow>
          (let s1 = s\<lparr>questions := (case body_questions d of None \<Rightarrow> [] | Some qs \<Rightarrow> qs)\<rparr>;
               s2 = (case body_questionSetId d of
                       None \<Rightarrow> s1
                     | Some i \<Rightarrow> if i = [] then s1 else s1\<lparr>savedQuestionSetId := Some i\<rparr>)
           in s2\<lparr>currentStep := Questions, isLoading := False\<rparr>)
      | _ \<Rightarrow> s\<lparr>error := ''Failed to generate questions. Please try again.'',
               isLoading := False\<rparr>)"

definition startMockInterview :: "home \<Rightarrow> home" where
  "startMockInterview s =
     s\<lparr>currentStep := Mock, currentQuestionIndex := 0, currentAnswer := [], feedback := [],
       showFeedback := False, timer := 0\<rparr>"

definition requestFollowUp :: "home \<Rightarrow> home \<times> call list" where
  "requestFollowUp s =
     (s\<lparr>isFetchingFollowUp := True, followUpQuestion := []\<rparr>,
      [GenerateFollowUp
         \<lparr>req_originalQuestion = current_question s, req_followup_answer = currentAnswer s\<rparr>])"

text \<open>A follow-up that is missing from the body is stored as \<open>undefined\<close>, which the
  page renders like the empty string.\<close>

definition requestFollowUp_done :: "string option reply \<Rightarrow> home \<Rightarrow> home" where
  "requestFollowUp_done r s =
     (case r of
        Data d \<Rightarrow>
          s\<lparr>followUpQuestion := (case d of None \<Rightarrow> [] | Some f \<Rightarrow> f),
            isFetchingFollowUp := False\<rparr>
      | _ \<Rightarrow>
          s\<lparr>followUpQuestion :=
              ''Sorry, I couldn't generate a follow-up. Please proceed to the next question.'',
            isFetchingFollowUp := False\<rparr>)"

text \<open>\<open>submitAnswer\<close> up to its \<open>await\<close>: the validation, then the interval is cleared
  and the feedback call is issued with the time on the clock.\<close>

definition submitAnswer :: "home \<Rightarrow> home \<times> call list" where
  "submitAnswer s =
     (if blank (currentAnswer s) then
        (s\<lparr>error := ''Please provide an answer before submitting''\<rparr>, [])
      else
        (s\<lparr>ticking := False, isSubmittingAnswer := True, error := []\<rparr>,
         [GenerateFeedback
            \<lparr>req_question = current_question s, req_answer = currentAnswer s,
             req_timeSpent = timer s\<rparr>]))"

text \<open>After the feedback call. The body's \<open>feedback\<close> field is a string or missing;
  \<open>data.feedback || "Good response! ..."\<close> replaces a missing or empty one.\<close>

definition submitAnswer_done :: "string option reply \<Rightarrow> home \<Rightarrow> home" where
  "submitAnswer_done r s =
     (case r of
        Data d \<Rightarrow>
          s\<lparr>feedback :=
              (case d of
                 None \<Rightarrow> ''Good response! Keep practicing to improve further.''
               | Some f \<Rightarrow>
                   if f = [] then ''Good response! Keep practicing to improve further.'' else f),
            showFeedback := True, isSubmittingAnswer := False\<rparr>
      | _ \<Rightarrow> s\<lparr>error := ''Failed to get feedback. Please try again.'',
               isSubmittingAnswer := False\<rparr>)"

definition nextQuestion :: "home \<Rightarrow> home" where
  "nextQuestion s =
     (if currentQuestionIndex s < int (length (questions s)) - 1 then
        s\<lparr>currentQuestionIndex := currentQuestionIndex s + 1, currentAnswer := [],
          feedback := [], showFeedback := False, followUpQuestion := [], error := [],
          timer := 0\<rparr>
      else s\<lparr>currentStep := Complete\<rparr>)"

definition resetToHome :: "home \<Rightarrow> home" where
  "resetToHome s =
     s\<lparr>currentStep := Input, questions := [], jobRole := [], company := [], error := [],
       currentQuestionIndex := 0, currentAnswer := [], feedback := [], showFeedback := False,
       followUpQuestion := [], timer := 0\<rparr>"

text \<open>
  The timer effect, with dependencies \<open>currentStep\<close>, \<open>currentQuestionIndex\<close> and
  \<open>showFeedback\<close>: when one of them has changed in a render, the previous interval is
  cleared and a new one is started exactly when the step is \<open>mock\<close> and no feedback is
  shown.
\<close>

definition timer_effect :: "home \<Rightarrow> home \<Rightarrow> home" where
  "timer_effect old new =
     (if currentStep new = currentStep old
         \<and> currentQuestionIndex new = currentQuestionIndex old
         \<and> showFeedback new = showFeedback old
      then new
      else new\<lparr>ticking := (currentStep new = Mock \<and> \<not> showFeedback new)\<rparr>)"

section \<open>The page as a transition system\<close>

text \<open>The page together with the calls in flight.\<close>

record app =
  page :: home
  pending :: "call list"

definition initial_app :: app where
  "initial_app = \<lparr>page = initial_home, pending = []\<rparr>"

text \<open>What can happen to the page: the user's input, a click on a button, a tick of
  the interval, and the settling of a call in flight.\<close>

datatype event =
    SetJobRole string
  | SetCompany string
  | SetSeniority string
  | SetDifficulty level
  | SetQuestionType question_filter
  | SetNumberOfQuestions int
  | ClickGenerate "user option"
  | AuthUserSettles bool
  | GenerateSettles "questions_body reply"
  | ClickStartMock
  | SetCurrentAnswer string
  | ClickSubmit
  | FeedbackSettles "string option reply"
  | ClickFollowUp
  | FollowUpSettles "string option reply"
  | ClickNext
  | ClickReset
  | Tick

fun is_AuthUser :: "call \<Rightarrow> bool" where
  "is_AuthUser (AuthUser r) = True"
| "is_AuthUser c = False"

fun is_GenerateQuestions :: "call \<Rightarrow> bool" where
  "is_GenerateQuestions (GenerateQuestions r) = True"
| "is_GenerateQuestions c = False"

fun is_GenerateFeedback :: "call \<Rightarrow> bool" where
  "is_GenerateFeedback (GenerateFeedback r) = True"
| "is_GenerateFeedback c = False"

fun is_GenerateFollowUp :: "call \<Rightarrow> bool" where
  "is_GenerateFollowUp (GenerateFollowUp r) = True"
| "is_GenerateFollowUp c = False"

text \<open>The first call in flight of a kind, and the calls that stay in flight.\<close>

fun take_call :: "(call \<Rightarrow> bool) \<Rightarrow> call list \<Rightarrow> (call \<times> call list) option" where
  "take_call k [] = None"
| "take_call k (c # cs) =
     (if k c then Some (c, cs)
      else (case take_call k cs of None \<Rightarrow> None | Some (d, ds) \<Rightarrow> Some (d, c # ds)))"

text \<open>One render: the new cells, the timer effect, and the calls issued.\<close>

definition render :: "app \<Rightarrow> home \<Rightarrow> call list \<Rightarrow> call list \<Rightarrow> app" where
  "render a s kept issued = \<lparr>page = timer_effect (page a) s, pending = kept @ issued\<rparr>"

text \<open>
  The controls of the JSX: the form and the generate button exist in step \<open>input\<close>, and
  the button is disabled while \<open>isLoading\<close> or a field is blank; the start button exists
  in step \<open>questions\<close>; the answer box in step \<open>mock\<close>; the submit button in step \<open>mock\<close>
  without feedback, disabled while \<open>isSubmittingAnswer\<close> or the answer is blank; the
  follow-up and next buttons in step \<open>mock\<close> with feedback, the first disabled while
  \<open>isFetchingFollowUp\<close>; a reset button in the steps \<open>questions\<close>, \<open>mock\<close> and
  \<open>complete\<close>. An event on a control that is missing or disabled changes nothing.
\<close>

fun dispatch :: "app \<Rightarrow> event \<Rightarrow> app" where
  "dispatch a (SetJobRole v) =
     (if currentStep (page a) = Input then render a ((page a)\<lparr>jobRole := v\<rparr>) (pending a) [] else a)"
| "dispatch a (SetCompany v) =
     (if currentStep (page a) = Input then render a ((page a)\<lparr>company := v\<rparr>) (pending a) [] else a)"
| "dispatch a (SetSeniority v) =
     (if currentStep (page a) = Input then render a ((page a)\<lparr>seniority := v\<rparr>) (pending a) [] else a)"
| "dispatch a (SetDifficulty v) =
     (if currentStep (page a) = Input then render a ((page a)\<lparr>difficulty := v\<rparr>) (pending a) [] else a)"
| "dispatch a (SetQuestionType v) =
     (if currentStep (page a) = Input then render a ((page a)\<lparr>questionType := v\<rparr>) (pending a) [] else a)"
| "dispatch a (SetNumberOfQuestions v) =
     (if currentStep (page a) = Input
      then render a ((page a)\<lparr>numberOfQuestions := v\<rparr>) (pending a) [] else a)"
| "dispatch a (ClickGenerate session) =
     (if currentStep (page a) = Input
         \<and> \<not> (isLoading (page a) \<or> blank (jobRole (page a)) \<or> blank (company (page a)))
      then (case handleGenerateQuestions session (page a) of
              (s, issued) \<Rightarrow> render a s (pending a) issued)
      else a)"
| "dispatch a (AuthUserSettles resolved) =
     (case take_call is_AuthUser (pending a) of
        Some (AuthUser req, kept) \<Rightarrow>
          (case handleGenerateQuestions_registered resolved req (page a) of
             (s, issued) \<Rightarrow> render a s kept issued)
      | _ \<Rightarrow> a)"
| "dispatch a (GenerateSettles r) =
     (case take_call is_GenerateQuestions (pending a) of
        Some (c, kept) \<Rightarrow> render a (handleGenerateQuestions_done r (page a)) kept []
      | None \<Rightarrow> a)"
| "dispatch a ClickStartMock =
     (if currentStep (page a) = Questions
      then render a (startMockInterview (page a)) (pending a) [] else a)"
| "dispatch a (SetCurrentAnswer v) =
     (if currentStep (page a) = Mock
      then render a ((page a)\<lparr>currentAnswer := v\<rparr>) (pending a) [] else a)"
| "dispatch a ClickSubmit =
     (if currentStep (page a) = Mock \<and> \<not> showFeedback (page a)
         \<and> \<not> (isSubmittingAnswer (page a) \<or> blank (currentAnswer (page a)))
      then (case submitAnswer (page a) of (s, issued) \<Rightarrow> render a s (pending a) issued)
      else a)"
| "dispatch a (FeedbackSettles r) =
     (case take_call is_GenerateFeedback (pending a) of
        Some (c, kept) \<Rightarrow> render a (submitAnswer_done r (page a)) kept []
      | None \<Rightarrow> a)"
| "dispatch a ClickFollowUp =
     (if currentStep (page a) = Mock \<and> showFeedback (page a) \<and> \<not> isFetchingFollowUp (page a)
      then (case requestFollowUp (page a) of (s, issued) \<Rightarrow> render a s (pending a) issued)
      else a)"
| "dispatch a (FollowUpSettles r) =
     (case take_call is_GenerateFollowUp (pending a) of
        Some (c, kept) \<Rightarrow> render a (requestFollowUp_done r (page a)) kept []
      | None \<Rightarrow> a)"
| "dispatch a ClickNext =
     (if currentStep (page a) = Mock \<and> showFeedback (page a)
      then render a (nextQuestion (page a)) (pending a) [] else a)"
| "dispatch a ClickReset =
     (if currentStep (page a) \<noteq> Input
      then render a (resetToHome (page a)) (pending a) [] else a)"
| "dispatch a Tick =
     (if ticking (page a)
      then render a ((page a)\<lparr>timer := timer (page a) + 1\<rparr>) (pending a) [] else a)"

text \<open>The page after a sequence of events, from the first render.\<close>

definition run :: "event list \<Rightarrow> app" where
  "run es = foldl dispatch initial_app es"

subsection \<open>Vocabulary for the properties of the page\<close>

text \<open>The index is a position of the list when the step is \<open>mock\<close>, or it is 0 and
  the list is empty.\<close>

definition index_ok :: "home \<Rightarrow> bool" where
  "index_ok s =
     (currentStep s = Mock \<longrightarrow>
        0 \<le> currentQuestionIndex s
        \<and> (currentQuestionIndex s < int (length (questions s))
           \<or> (questions s = [] \<and> currentQuestionIndex s = 0)))"

text \<open>The calls of the generate action: the registration of the user and the
  generation itself.\<close>

definition is_generation :: "call \<Rightarrow> bool" where
  "is_generation c = (is_AuthUser c \<or> is_GenerateQuestions c)"

definition generation_calls :: "call list \<Rightarrow> nat" where
  "generation_calls cs = length (filter is_generation cs)"

text \<open>The generate action has a call in flight exactly while \<open>isLoading\<close>.\<close>

definition one_generation :: "app \<Rightarrow> bool" where
  "one_generation a = (generation_calls (pending a) = (if isLoading (page a) then 1 else 0))"

text \<open>A session up to the start of the mock interview, on the questions the backend
  returned, and two questions to run it on.\<close>

definition two_questions :: "question list" where
  "two_questions =
     [\<lparr>qid = ''1'', question = ''Tell me about a project you led.'', qtype = Behavioral,
       qdifficulty = Medium, category = ''leadership''\<rparr>,
      \<lparr>qid = ''2'', question = ''How does a hash map work?'', qtype = Technical,
       qdifficulty = Easy, category = ''data structures''\<rparr>]"

definition session_to_mock :: "question list \<Rightarrow> event list" where
  "session_to_mock qs =
     [SetJobRole ''Software Engineer'', SetCompany ''Google'', ClickGenerate None,
      GenerateSettles (Data \<lparr>body_questions = Some qs, body_questionSetId = None\<rparr>),
      ClickStartMock]"

section \<open>Properties of fetchWithRetry\<close>

declare fetch_loop.simps [simp del]

lemma loop_exit:
  "\<not> i \<le> rs \<Longrightarrow> fetch_loop net rs rd tmo i le tr = (Inl (Error (last_error_message le)), tr)"
  by (subst fetch_loop.simps) simp

lemma loop_return:
  "i \<le> rs \<Longrightarrow> fetch_signal tmo (net i) = Resolved resp \<Longrightarrow>
   ok resp \<or> (400 \<le> status resp \<and> status resp < 500) \<Longrightarrow>
   fetch_loop net rs rd tmo i le tr = (Inr resp, attempted tr)"
  by (subst fetch_loop.simps) simp

lemma loop_abort:
  "i \<le> rs \<Longrightarrow> fetch_signal tmo (net i) = Rejected err \<Longrightarrow> err_name err = ''AbortError'' \<Longrightarrow>
   fetch_loop net rs rd tmo i le tr = (Inl (Error timeout_message), attempted tr)"
  by (subst fetch_loop.simps) simp

lemma loop_retry:
  "i < rs \<Longrightarrow> retried tmo (net i) \<Longrightarrow>
   \<exists>le'. fetch_loop net rs rd tmo i le tr =
          fetch_loop net rs rd tmo (i + 1) le' (waited (rd * (i + 1)) (attempted tr))"
  by (subst fetch_loop.simps) (auto simp: retried_def split: settled.splits)

lemma loop_last_response:
  "fetch_signal tmo (net rs) = Resolved resp \<Longrightarrow>
   fetch_loop net rs rd tmo rs le tr = (Inr resp, attempted tr)"
  by (subst fetch_loop.simps) simp

lemma loop_last_rejection:
  "fetch_signal tmo (net rs) = Rejected err \<Longrightarrow> err_name err \<noteq> ''AbortError'' \<Longrightarrow>
   fetch_loop net rs rd tmo rs le tr = (Inl (Error (last_error_message (Some err))), attempted tr)"
  by (subst fetch_loop.simps) (simp add: loop_exit)

lemma backoff_refl: "backoff rd i i tr = tr"
  by (simp add: backoff_def)

lemma backoff_step:
  "i \<le> k \<Longrightarrow> waited (rd * (k + 1)) (attempted (backoff rd i k tr)) = backoff rd i (k + 1) tr"
  by (simp add: backoff_def waited_def attempted_def upto_rec2 nat_add_distrib)

lemma loop_prefix:
  assumes "i \<le> k" and "k \<le> rs" and "\<forall>j. i \<le> j \<and> j < k \<longrightarrow> retried tmo (net j)"
  shows "\<exists>le'. fetch_loop net rs rd tmo i le tr = fetch_loop net rs rd tmo k le' (backoff rd i k tr)"
  using assms
proof (induction k rule: int_ge_induct)
  case base
  show ?case by (auto simp: backoff_refl)
next
  case (step k)
  from step obtain le1 where
    a: "fetch_loop net rs rd tmo i le tr = fetch_loop net rs rd tmo k le1 (backoff rd i k tr)"
    by fastforce
  from step have "k < rs" "retried tmo (net k)" by auto
  then obtain le2 where
    "fetch_loop net rs rd tmo k le1 (backoff rd i k tr) =
     fetch_loop net rs rd tmo (k + 1) le2 (waited (rd * (k + 1)) (attempted (backoff rd i k tr)))"
    using loop_retry [of k rs tmo net rd le1 "backoff rd i k tr"] by blast
  with a step.hyps show ?case by (auto simp: backoff_step)
qed

lemma sum_backoff:
  "0 \<le> r \<Longrightarrow> sum_list (map (\<lambda>j. rd * (j + 1)) [0..r - 1]) = rd * (r * (r + 1) div 2)"
proof (induction r rule: int_ge_induct)
  case base
  show ?case by simp
next
  case (step r)
  have e: "(r + 1) * (r + 1 + 1) div 2 = r * (r + 1) div 2 + (r + 1)"
  proof -
    have "(r + 1) * (r + 1 + 1) = r * (r + 1) + (r + 1) * 2" by (simp add: algebra_simps)
    then show ?thesis by simp
  qed
  have "sum_list (map (\<lambda>j. rd * (j + 1)) [0..r + 1 - 1]) =
        sum_list (map (\<lambda>j. rd * (j + 1)) [0..r - 1]) + rd * (r + 1)"
    using step.hyps by (simp add: upto_rec2)
  also have "\<dots> = rd * (r * (r + 1) div 2) + rd * (r + 1)"
    using step by simp
  also have "\<dots> = rd * ((r + 1) * (r + 1 + 1) div 2)"
    by (subst e) (simp only: distrib_left)
  finally show ?case .
qed

lemma failure_retried: "server_or_network_failure tmo a \<Longrightarrow> retried tmo a"
  by (auto simp: server_or_network_failure_def retried_def ok_def split: settled.splits)

lemma start_trace: "backoff rd 0 k \<lparr>attempts = 0, delays = []\<rparr> =
   \<lparr>attempts = nat k, delays = map (\<lambda>j. rd * (j + 1)) [0..k - 1]\<rparr>"
  by (simp add: backoff_def)

text \<open>
  Claim C1, as the code has it. With \<open>retries = r \<ge> 0\<close> and an endpoint that answers every
  attempt \<open>0, \<dots>, r\<close> with a 5xx status or a network-level failure, one call makes
  exactly \<open>r + 1\<close> attempts and sleeps \<open>retryDelay * (i + 1)\<close> after attempt \<open>i\<close> for each
  \<open>i < r\<close>, in total \<open>retryDelay * (1 + \<dots> + r)\<close>. The final result is the last response
  when the last attempt was a 5xx response; when it was a network failure, an error with
  that failure's message is thrown, and the fixed text "Network error. Please check your
  connection or try again in a moment." replaces an empty message.
\<close>

theorem fetchWithRetry_permanent_failure:
  assumes "0 \<le> opt_retries options"
    and "\<forall>j. 0 \<le> j \<and> j \<le> opt_retries options \<longrightarrow>
             server_or_network_failure (opt_timeout options) (net j)"
  shows "fetchWithRetry net options =
           ((case fetch_signal (opt_timeout options) (net (opt_retries options)) of
               Resolved resp \<Rightarrow> Inr resp
             | Rejected err \<Rightarrow>
                 Inl (Error (if err_message err = [] then network_message else err_message err))),
            \<lparr>attempts = nat (opt_retries options + 1),
             delays = map (\<lambda>i. opt_retryDelay options * (i + 1)) [0..opt_retries options - 1]\<rparr>)
         \<and> sum_list (delays (snd (fetchWithRetry net options))) =
             opt_retryDelay options * (opt_retries options * (opt_retries options + 1) div 2)"
proof -
  define rs rd tmo where "rs = opt_retries options" and "rd = opt_retryDelay options"
    and "tmo = opt_timeout options"
  define tr where "tr = backoff rd 0 rs \<lparr>attempts = 0, delays = []\<rparr>"
  have pre: "\<forall>j. 0 \<le> j \<and> j < rs \<longrightarrow> retried tmo (net j)"
    using assms(2) by (simp add: rs_def tmo_def failure_retried)
  from loop_prefix [of 0 rs rs tmo net rd None "\<lparr>attempts = 0, delays = []\<rparr>"] assms(1) pre
  obtain le where run: "fetchWithRetry net options = fetch_loop net rs rd tmo rs le tr"
    by (auto simp: fetchWithRetry_def rs_def rd_def tmo_def tr_def)
  have last: "server_or_network_failure tmo (net rs)"
    using assms by (simp add: rs_def tmo_def)
  have tr': "attempted tr = \<lparr>attempts = nat (rs + 1), delays = map (\<lambda>i. rd * (i + 1)) [0..rs - 1]\<rparr>"
    using assms(1) by (simp add: tr_def start_trace attempted_def rs_def nat_add_distrib)
  have res: "fetch_loop net rs rd tmo rs le tr =
      ((case fetch_signal tmo (net rs) of
          Resolved resp \<Rightarrow> Inr resp
        | Rejected err \<Rightarrow>
            Inl (Error (if err_message err = [] then network_message else err_message err))),
       attempted tr)"
  proof (cases "fetch_signal tmo (net rs)")
    case (Resolved resp)
    then show ?thesis by (simp add: loop_last_response)
  next
    case (Rejected err)
    with last have "err_name err \<noteq> ''AbortError''"
      by (simp add: server_or_network_failure_def)
    with Rejected show ?thesis
      by (simp add: loop_last_rejection last_error_message_def)
  qed
  have a: "fetchWithRetry net options =
      ((case fetch_signal tmo (net rs) of
          Resolved resp \<Rightarrow> Inr resp
        | Rejected err \<Rightarrow>
            Inl (Error (if err_message err = [] then network_message else err_message err))),
       \<lparr>attempts = nat (rs + 1), delays = map (\<lambda>i. rd * (i + 1)) [0..rs - 1]\<rparr>)"
    by (simp only: run res tr')
  have b: "sum_list (delays (snd (fetchWithRetry net options))) = rd * (rs * (rs + 1) div 2)"
    using assms(1) by (simp add: a sum_backoff rs_def)
  from a b show ?thesis
    unfolding rs_def rd_def tmo_def by blast
qed

text \<open>The theorem at \<open>retries = 2\<close>, \<open>retryDelay = 500\<close> and an endpoint that always
  answers 503: three attempts, delays 500 and 1000.\<close>

theorem fetchWithRetry_permanent_failure_witness:
  "0 \<le> opt_retries \<lparr>retries = Some 2, retryDelay = Some 500, timeout = None\<rparr>
   \<and> server_or_network_failure 60000
         (every_attempt (Attempt 40 (Resolved \<lparr>status = 503, json_body = None\<rparr>)) 2)
   \<and> fetchWithRetry (every_attempt (Attempt 40 (Resolved \<lparr>status = 503, json_body = None\<rparr>)))
        \<lparr>retries = Some 2, retryDelay = Some 500, timeout = None\<rparr> =
       (Inr \<lparr>status = 503, json_body = None\<rparr>, \<lparr>attempts = 3, delays = [500, 1000]\<rparr>)
   \<and> sum_list (delays (snd (fetchWithRetry
        (every_attempt (Attempt 40 (Resolved \<lparr>status = 503, json_body = None\<rparr>)))
        \<lparr>retries = Some 2, retryDelay = Some 500, timeout = None\<rparr>))) = 1500"
proof -
  have h1: "0 \<le> opt_retries \<lparr>retries = Some 2, retryDelay = Some 500, timeout = None\<rparr>"
    by (simp add: opt_retries_def)
  have h2: "\<forall>j. 0 \<le> j \<and> j \<le> opt_retries \<lparr>retries = Some 2, retryDelay = Some 500, timeout = None\<rparr> \<longrightarrow>
      server_or_network_failure (opt_timeout \<lparr>retries = Some 2, retryDelay = Some 500, timeout = None\<rparr>)
        (every_attempt (Attempt 40 (Resolved \<lparr>status = 503, json_body = None\<rparr>)) j)"
    by (simp add: server_or_network_failure_def every_attempt_def fetch_signal_def opt_timeout_def)
  have u: "[0..(1::int)] = [0, 1]"
    by (simp add: upto.simps)
  show ?thesis
    using fetchWithRetry_permanent_failure
      [where net = "every_attempt (Attempt 40 (Resolved \<lparr>status = 503, json_body = None\<rparr>))"
         and options = "\<lparr>retries = Some 2, retryDelay = Some 500, timeout = None\<rparr>", OF h1 h2]
      h2 [rule_format, of 2]
    by (simp add: opt_retries_def opt_retryDelay_def opt_timeout_def every_attempt_def
        fetch_signal_def u)
qed

text \<open>
  Claim C1 as stated says that the final result is the last failure observed. With
  \<open>retries = 0\<close> and a network failure whose message is empty, the error thrown carries
  the fixed network text, not the (empty) message observed.
\<close>

theorem fetchWithRetry_last_outcome_counterexample:
  "server_or_network_failure 60000
     (Attempt 40 (Rejected \<lparr>err_name = ''TypeError'', err_message = ''''\<rparr>))
   \<and> fst (fetchWithRetry
        (every_attempt (Attempt 40 (Rejected \<lparr>err_name = ''TypeError'', err_message = ''''\<rparr>)))
        \<lparr>retries = Some 0, retryDelay = None, timeout = None\<rparr>)
      = Inl (Error ''Network error. Please check your connection or try again in a moment.'')
   \<and> fst (fetchWithRetry
        (every_attempt (Attempt 40 (Rejected \<lparr>err_name = ''TypeError'', err_message = ''''\<rparr>)))
        \<lparr>retries = Some 0, retryDelay = None, timeout = None\<rparr>)
      \<noteq> Inl (Error (err_message \<lparr>err_name = ''TypeError'', err_message = ''''\<rparr>))"
  by (simp add: fetchWithRetry_def opt_retries_def opt_retryDelay_def opt_timeout_def
      every_attempt_def fetch_signal_def server_or_network_failure_def
      loop_last_rejection last_error_message_def network_message_def)

lemma loop_reaches:
  assumes "0 \<le> k" and "k \<le> opt_retries options"
    and "\<forall>j. 0 \<le> j \<and> j < k \<longrightarrow> retried (opt_timeout options) (net j)"
  shows "\<exists>le. fetchWithRetry net options =
           fetch_loop net (opt_retries options) (opt_retryDelay options) (opt_timeout options) k le
             \<lparr>attempts = nat k, delays = map (\<lambda>i. opt_retryDelay options * (i + 1)) [0..k - 1]\<rparr>"
  using loop_prefix [of 0 k "opt_retries options" "opt_timeout options" net
      "opt_retryDelay options" None "\<lparr>attempts = 0, delays = []\<rparr>"] assms
  by (simp add: fetchWithRetry_def start_trace)

lemma attempted_at:
  "0 \<le> k \<Longrightarrow> attempted \<lparr>attempts = nat k, delays = ds\<rparr> = \<lparr>attempts = nat (k + 1), delays = ds\<rparr>"
  by (simp add: attempted_def nat_add_distrib)

text \<open>
  A response with \<open>response.ok\<close>, that is with a status in 200-299, is returned by the
  attempt \<open>k\<close> that received it: the call has made \<open>k + 1\<close> attempts and slept only the
  \<open>k\<close> delays of the earlier, retried attempts; no attempt and no delay follows.
\<close>

lemma fetchWithRetry_ok_returns_at_once:
  assumes "0 \<le> k" and "k \<le> opt_retries options"
    and "\<forall>j. 0 \<le> j \<and> j < k \<longrightarrow> retried (opt_timeout options) (net j)"
    and "fetch_signal (opt_timeout options) (net k) = Resolved resp"
    and "200 \<le> status resp \<and> status resp \<le> 299"
  shows "fetchWithRetry net options =
           (Inr resp,
            \<lparr>attempts = nat (k + 1),
             delays = map (\<lambda>i. opt_retryDelay options * (i + 1)) [0..k - 1]\<rparr>)"
proof -
  from loop_reaches [OF assms(1-3)] obtain le where
    "fetchWithRetry net options =
       fetch_loop net (opt_retries options) (opt_retryDelay options) (opt_timeout options) k le
         \<lparr>attempts = nat k, delays = map (\<lambda>i. opt_retryDelay options * (i + 1)) [0..k - 1]\<rparr>"
    by blast
  moreover have "ok resp \<or> (400 \<le> status resp \<and> status resp < 500)"
    using assms(5) by (simp add: ok_def)
  ultimately show ?thesis
    using assms(1,2,4) by (simp add: loop_return attempted_at)
qed

text \<open>
  Claim C8. A response with a 4xx status is returned by the attempt \<open>k\<close> that received it,
  with no further attempt and no delay after it. At \<open>k = 0\<close> this is one attempt and no
  delay at all.
\<close>

theorem fetchWithRetry_client_error_returns_at_once:
  assumes "0 \<le> k" and "k \<le> opt_retries options"
    and "\<forall>j. 0 \<le> j \<and> j < k \<longrightarrow> retried (opt_timeout options) (net j)"
    and "fetch_signal (opt_timeout options) (net k) = Resolved resp"
    and "400 \<le> status resp \<and> status resp \<le> 499"
  shows "fetchWithRetry net options =
           (Inr resp,
            \<lparr>attempts = nat (k + 1),
             delays = map (\<lambda>i. opt_retryDelay options * (i + 1)) [0..k - 1]\<rparr>)"
proof -
  from loop_reaches [OF assms(1-3)] obtain le where
    "fetchWithRetry net options =
       fetch_loop net (opt_retries options) (opt_retryDelay options) (opt_timeout options) k le
         \<lparr>attempts = nat k, delays = map (\<lambda>i. opt_retryDelay options * (i + 1)) [0..k - 1]\<rparr>"
    by blast
  moreover have "ok resp \<or> (400 \<le> status resp \<and> status resp < 500)"
    using assms(5) by simp
  ultimately show ?thesis
    using assms(1,2,4) by (simp add: loop_return attempted_at)
qed

text \<open>
  Claim C3. When attempt \<open>k\<close> takes longer than \<open>timeout\<close>, the call throws at once the error
  with the fixed timeout text, whatever the number of retries left: \<open>k + 1\<close> attempts have
  been made and no delay follows attempt \<open>k\<close>.
\<close>

theorem fetchWithRetry_timeout_is_final:
  assumes "0 \<le> k" and "k \<le> opt_retries options"
    and "\<forall>j. 0 \<le> j \<and> j < k \<longrightarrow> retried (opt_timeout options) (net j)"
    and "opt_timeout options < duration (net k)"
  shows "fetchWithRetry net options =
           (Inl (Error ''Request timeout. The server might be waking up (this can take up to 60 seconds on free tier). Please try again.''),
            \<lparr>attempts = nat (k + 1),
             delays = map (\<lambda>i. opt_retryDelay options * (i + 1)) [0..k - 1]\<rparr>)"
proof -
  from loop_reaches [OF assms(1-3)] obtain le where
    "fetchWithRetry net options =
       fetch_loop net (opt_retries options) (opt_retryDelay options) (opt_timeout options) k le
         \<lparr>attempts = nat k, delays = map (\<lambda>i. opt_retryDelay options * (i + 1)) [0..k - 1]\<rparr>"
    by blast
  moreover have "fetch_signal (opt_timeout options) (net k) = Rejected abort_error"
    using assms(4) by (simp add: fetch_signal_def)
  moreover have "err_name abort_error = ''AbortError''"
    by (simp add: abort_error_def)
  ultimately show ?thesis
    using assms(1,2) by (simp add: loop_abort attempted_at timeout_message_def)
qed

text \<open>
  Claim C2 has every response with a status in 200-399 returned at once, with no further
  attempt and no delay, and the comments of the loop keep the retry for server errors
  (5xx). The test of the early return is \<open>response.ok\<close> or 4xx, though, and a 304 is
  neither: with one retry left the loop sleeps 1000 ms and calls \<open>fetch\<close> again, two
  attempts where the claim has one.
\<close>

theorem fetchWithRetry_redirect_status_retried:
  "200 \<le> status \<lparr>status = 304, json_body = None\<rparr> \<and> status \<lparr>status = 304, json_body = None\<rparr> \<le> 399
   \<and> fetchWithRetry (every_attempt (Attempt 40 (Resolved \<lparr>status = 304, json_body = None\<rparr>)))
        \<lparr>retries = Some 1, retryDelay = None, timeout = None\<rparr>
      = (Inr \<lparr>status = 304, json_body = None\<rparr>, \<lparr>attempts = 2, delays = [1000]\<rparr>)"
  by (simp add: fetchWithRetry_def opt_retries_def opt_retryDelay_def opt_timeout_def
      every_attempt_def fetch_signal_def fetch_loop.simps ok_def attempted_def waited_def)

lemma first_is_503_retried:
  "\<forall>j. 0 \<le> j \<and> j < 1 \<longrightarrow>
     retried (opt_timeout \<lparr>retries = None, retryDelay = None, timeout = None\<rparr>)
       (scripted [Attempt 40 (Resolved \<lparr>status = 503, json_body = None\<rparr>)] a j)"
proof (intro allI impI)
  fix j :: int
  assume "0 \<le> j \<and> j < 1"
  then have "j = 0" by simp
  then show "retried (opt_timeout \<lparr>retries = None, retryDelay = None, timeout = None\<rparr>)
       (scripted [Attempt 40 (Resolved \<lparr>status = 503, json_body = None\<rparr>)] a j)"
    by (simp add: retried_def scripted_def fetch_signal_def opt_timeout_def ok_def)
qed

text \<open>A 503 followed by a 200 with the default options: the 200 is returned by the
  second attempt, after the single delay of 1000 ms.\<close>

lemma fetchWithRetry_ok_returns_at_once_example:
  "(0::int) \<le> 1 \<and> 1 \<le> opt_retries \<lparr>retries = None, retryDelay = None, timeout = None\<rparr>
   \<and> retried (opt_timeout \<lparr>retries = None, retryDelay = None, timeout = None\<rparr>)
         (scripted [Attempt 40 (Resolved \<lparr>status = 503, json_body = None\<rparr>)]
            (Attempt 25 (Resolved \<lparr>status = 200, json_body = Some (JObj [])\<rparr>)) 0)
   \<and> fetchWithRetry
        (scripted [Attempt 40 (Resolved \<lparr>status = 503, json_body = None\<rparr>)]
           (Attempt 25 (Resolved \<lparr>status = 200, json_body = Some (JObj [])\<rparr>)))
        \<lparr>retries = None, retryDelay = None, timeout = None\<rparr>
      = (Inr \<lparr>status = 200, json_body = Some (JObj [])\<rparr>, \<lparr>attempts = 2, delays = [1000]\<rparr>)"
proof -
  let ?o = "\<lparr>retries = None, retryDelay = None, timeout = None\<rparr>"
  let ?net = "scripted [Attempt 40 (Resolved \<lparr>status = 503, json_body = None\<rparr>)]
           (Attempt 25 (Resolved \<lparr>status = 200, json_body = Some (JObj [])\<rparr>))"
  have h1: "(0::int) \<le> 1" by simp
  have h2: "1 \<le> opt_retries ?o" by (simp add: opt_retries_def)
  have h4: "fetch_signal (opt_timeout ?o) (?net 1)
      = Resolved \<lparr>status = 200, json_body = Some (JObj [])\<rparr>"
    by (simp add: scripted_def fetch_signal_def opt_timeout_def)
  have h5: "200 \<le> status \<lparr>status = 200, json_body = Some (JObj [])\<rparr>
      \<and> status \<lparr>status = 200, json_body = Some (JObj [])\<rparr> \<le> 299"
    by simp
  show ?thesis
    using fetchWithRetry_ok_returns_at_once
      [where k = 1 and options = ?o and net = ?net, OF h1 h2 first_is_503_retried h4 h5]
      h2 first_is_503_retried
        [rule_format, of 0 "Attempt 25 (Resolved \<lparr>status = 200, json_body = Some (JObj [])\<rparr>)"]
    by (simp add: opt_retryDelay_def)
qed

text \<open>A 404 on the first attempt with the default options: one attempt, no delay.\<close>

theorem fetchWithRetry_client_error_returns_at_once_witness:
  "(0::int) \<le> 0 \<and> 0 \<le> opt_retries \<lparr>retries = None, retryDelay = None, timeout = None\<rparr>
   \<and> fetchWithRetry (every_attempt (Attempt 40 (Resolved \<lparr>status = 404, json_body = None\<rparr>)))
        \<lparr>retries = None, retryDelay = None, timeout = None\<rparr>
      = (Inr \<lparr>status = 404, json_body = None\<rparr>, \<lparr>attempts = 1, delays = []\<rparr>)"
proof -
  let ?o = "\<lparr>retries = None, retryDelay = None, timeout = None\<rparr>"
  let ?net = "every_attempt (Attempt 40 (Resolved \<lparr>status = 404, json_body = None\<rparr>))"
  have h1: "(0::int) \<le> 0" by simp
  have h2: "0 \<le> opt_retries ?o" by (simp add: opt_retries_def)
  have h3: "\<forall>j. (0::int) \<le> j \<and> j < 0 \<longrightarrow> retried (opt_timeout ?o) (?net j)" by auto
  have h4: "fetch_signal (opt_timeout ?o) (?net 0) = Resolved \<lparr>status = 404, json_body = None\<rparr>"
    by (simp add: every_attempt_def fetch_signal_def opt_timeout_def)
  have h5: "400 \<le> status \<lparr>status = 404, json_body = None\<rparr>
      \<and> status \<lparr>status = 404, json_body = None\<rparr> \<le> 499"
    by simp
  show ?thesis
    using fetchWithRetry_client_error_returns_at_once
      [where k = 0 and options = ?o and net = ?net, OF h1 h2 h3 h4 h5] h2
    by simp
qed

text \<open>A 503 followed by an attempt of 90 seconds with the default timeout of 60 seconds:
  the timeout error is thrown by the second attempt although two retries remain.\<close>

theorem fetchWithRetry_timeout_is_final_witness:
  "(0::int) \<le> 1 \<and> 1 \<le> opt_retries \<lparr>retries = None, retryDelay = None, timeout = None\<rparr>
   \<and> retried (opt_timeout \<lparr>retries = None, retryDelay = None, timeout = None\<rparr>)
         (scripted [Attempt 40 (Resolved \<lparr>status = 503, json_body = None\<rparr>)]
            (Attempt 90000 (Resolved \<lparr>status = 200, json_body = None\<rparr>)) 0)
   \<and> opt_timeout \<lparr>retries = None, retryDelay = None, timeout = None\<rparr>
        < duration (scripted [Attempt 40 (Resolved \<lparr>status = 503, json_body = None\<rparr>)]
              (Attempt 90000 (Resolved \<lparr>status = 200, json_body = None\<rparr>)) 1)
   \<and> fetchWithRetry
        (scripted [Attempt 40 (Resolved \<lparr>status = 503, json_body = None\<rparr>)]
           (Attempt 90000 (Resolved \<lparr>status = 200, json_body = None\<rparr>)))
        \<lparr>retries = None, retryDelay = None, timeout = None\<rparr>
      = (Inl (Error ''Request timeout. The server might be waking up (this can take up to 60 seconds on free tier). Please try again.''),
         \<lparr>attempts = 2, delays = [1000]\<rparr>)"
proof -
  let ?o = "\<lparr>retries = None, retryDelay = None, timeout = None\<rparr>"
  let ?net = "scripted [Attempt 40 (Resolved \<lparr>status = 503, json_body = None\<rparr>)]
           (Attempt 90000 (Resolved \<lparr>status = 200, json_body = None\<rparr>))"
  have h1: "(0::int) \<le> 1" by simp
  have h2: "1 \<le> opt_retries ?o" by (simp add: opt_retries_def)
  have h4: "opt_timeout ?o < duration (?net 1)"
    by (simp add: scripted_def opt_timeout_def)
  show ?thesis
    using fetchWithRetry_timeout_is_final
      [where k = 1 and options = ?o and net = ?net, OF h1 h2 first_is_503_retried h4]
      h2 h4 first_is_503_retried
        [rule_format, of 0 "Attempt 90000 (Resolved \<lparr>status = 200, json_body = None\<rparr>)"]
    by (simp add: opt_retryDelay_def)
qed

section \<open>Properties of fetchJSON\<close>

declare show_nat.simps [simp del]

lemma show_nat_404: "show_nat 404 = ''404''"
  by (simp add: show_nat.simps [of 404] show_nat.simps [of 40] show_nat.simps [of 4] digit_def)

lemma get_prop_not_null:
  "errorData \<noteq> JNull \<Longrightarrow> \<exists>v. get_prop errorData p = Inr v"
  by (cases errorData) simp_all

text \<open>
  For a response that is not \<open>ok\<close> and whose body is not the JSON value \<open>null\<close>, the
  error thrown takes its text from the body's \<open>error\<close> member when that is truthy, else
  from its \<open>message\<close> member when that is truthy, else it is the generic text with the
  status code; the exception of a member that cannot be converted to a string takes the
  place of the error.
\<close>

lemma fetchJSON_message_preference:
  assumes "fst (fetchWithRetry net options) = Inr resp" and "\<not> ok resp"
    and "json_body resp \<noteq> Some JNull"
    and "errorData = (case json_body resp of None \<Rightarrow> JObj [] | Some d \<Rightarrow> d)"
    and "get_prop errorData ''error'' = Inr a" and "get_prop errorData ''message'' = Inr b"
  shows "fetchJSON net options =
           (case (case truthy_value a of
                    Some v \<Rightarrow> to_string v
                  | None \<Rightarrow>
                      (case truthy_value b of
                         Some v \<Rightarrow> to_string v
                       | None \<Rightarrow> Inr (''HTTP error! status: '' @ show_nat (status resp)))) of
              Inl e \<Rightarrow> Inl e
            | Inr m \<Rightarrow> Inl (Error m))"
  using assms
  by (simp add: fetchJSON_def error_text_def split: option.splits)

text \<open>
  Claim C4 asks, for every response that is not a success, for an error whose message is
  the body's \<open>error\<close> member, else its \<open>message\<close> member, else "HTTP error! status: N". A
  404 whose body is the JSON text \<open>null\<close> parses without error, so the \<open>{}\<close> fallback is
  not taken, and reading \<open>errorData.error\<close> throws a \<open>TypeError\<close>: none of the three
  messages is produced.
\<close>

theorem fetchJSON_null_body:
  "fetchJSON (every_attempt (Attempt 40 (Resolved \<lparr>status = 404, json_body = Some JNull\<rparr>)))
     \<lparr>retries = None, retryDelay = None, timeout = None\<rparr>
   = Inl (TypeError_null_read ''error'')"
  by (simp add: fetchJSON_def fetchWithRetry_def opt_retries_def opt_retryDelay_def
      opt_timeout_def every_attempt_def fetch_signal_def fetch_loop.simps ok_def error_text_def)

text \<open>The sibling cases at the same status: a body that does not parse gives the
  generic text, and an \<open>error\<close> member wins over a \<open>message\<close> member.\<close>

lemma fetchJSON_unparseable_body:
  "fetchJSON (every_attempt (Attempt 40 (Resolved \<lparr>status = 404, json_body = None\<rparr>)))
     \<lparr>retries = None, retryDelay = None, timeout = None\<rparr>
   = Inl (Error ''HTTP error! status: 404'')"
  by (simp add: fetchJSON_def fetchWithRetry_def opt_retries_def opt_retryDelay_def
      opt_timeout_def every_attempt_def fetch_signal_def fetch_loop.simps ok_def error_text_def
      truthy_value_def show_nat_404)

lemma fetchJSON_error_field:
  "fetchJSON (every_attempt (Attempt 40 (Resolved
       \<lparr>status = 404, json_body = Some (JObj [(''message'', JStr ''m''), (''error'', JStr ''e'')])\<rparr>)))
     \<lparr>retries = None, retryDelay = None, timeout = None\<rparr>
   = Inl (Error ''e'')"
  by (simp add: fetchJSON_def fetchWithRetry_def opt_retries_def opt_retryDelay_def
      opt_timeout_def every_attempt_def fetch_signal_def fetch_loop.simps ok_def error_text_def
      truthy_value_def)

section \<open>Properties of the handlers\<close>

text \<open>\<open>trim\<close> on two small inputs: white space only, and a text with white space
  around and inside it.\<close>

lemma blank_spaces: "blank ''  ''"
  by (simp add: blank_def trim_def is_whitespace_def)

lemma not_blank_word: "\<not> blank '' a b ''"
  by (simp add: blank_def trim_def is_whitespace_def)

text \<open>
  Claim C7. \<open>submitAnswer\<close> on an answer that is empty or white space only sets the
  validation message and returns: no call is issued and every other cell keeps its value,
  so the step stays \<open>mock\<close> and the feedback stays empty when they were.
\<close>

theorem submitAnswer_blank:
  assumes "blank (currentAnswer s)"
  shows "submitAnswer s = (s\<lparr>error := ''Please provide an answer before submitting''\<rparr>, [])
         \<and> currentStep (fst (submitAnswer s)) = currentStep s
         \<and> feedback (fst (submitAnswer s)) = feedback s
         \<and> showFeedback (fst (submitAnswer s)) = showFeedback s
         \<and> isSubmittingAnswer (fst (submitAnswer s)) = isSubmittingAnswer s"
  using assms by (simp add: submitAnswer_def)

text \<open>At the start of a mock interview with an answer of two spaces.\<close>

theorem submitAnswer_blank_witness:
  "blank (currentAnswer (startMockInterview initial_home\<lparr>currentAnswer := ''  ''\<rparr>))
   \<and> snd (submitAnswer (startMockInterview initial_home\<lparr>currentAnswer := ''  ''\<rparr>)) = []
   \<and> error (fst (submitAnswer (startMockInterview initial_home\<lparr>currentAnswer := ''  ''\<rparr>)))
        = ''Please provide an answer before submitting''
   \<and> currentStep (fst (submitAnswer (startMockInterview initial_home\<lparr>currentAnswer := ''  ''\<rparr>))) = Mock
   \<and> feedback (fst (submitAnswer (startMockInterview initial_home\<lparr>currentAnswer := ''  ''\<rparr>))) = []"
proof -
  have h: "blank (currentAnswer (startMockInterview initial_home\<lparr>currentAnswer := ''  ''\<rparr>))"
    using blank_spaces by simp
  have m: "currentStep (startMockInterview initial_home\<lparr>currentAnswer := ''  ''\<rparr>) = Mock"
    "feedback (startMockInterview initial_home\<lparr>currentAnswer := ''  ''\<rparr>) = []"
    by (simp_all add: startMockInterview_def)
  show ?thesis
    using submitAnswer_blank [OF h] h m by simp
qed

text \<open>
  Claim C9. Whatever the state, \<open>resetToHome\<close> gives step \<open>input\<close>, no questions, index 0, and
  an empty answer, feedback, follow-up and error, a hidden feedback panel and the timer at
  0; resetting twice is resetting once.
\<close>

theorem resetToHome_clears:
  "currentStep (resetToHome s) = Input
   \<and> questions (resetToHome s) = []
   \<and> currentQuestionIndex (resetToHome s) = 0
   \<and> currentAnswer (resetToHome s) = []
   \<and> feedback (resetToHome s) = []
   \<and> showFeedback (resetToHome s) = False
   \<and> followUpQuestion (resetToHome s) = []
   \<and> error (resetToHome s) = []
   \<and> timer (resetToHome s) = 0
   \<and> resetToHome (resetToHome s) = resetToHome s"
  by (simp add: resetToHome_def)

text \<open>
  Claim C10. When the feedback call succeeds, the feedback stored is not empty and the
  feedback panel is shown: a missing or empty \<open>feedback\<close> field is replaced by the fixed
  text, any other text is stored as it is.
\<close>

theorem submitAnswer_done_feedback:
  "feedback (submitAnswer_done (Data d) s) \<noteq> []
   \<and> showFeedback (submitAnswer_done (Data d) s)
   \<and> (d = None \<or> d = Some [] \<longrightarrow>
        feedback (submitAnswer_done (Data d) s)
          = ''Good response! Keep practicing to improve further.'')
   \<and> (\<forall>f. d = Some f \<and> f \<noteq> [] \<longrightarrow> feedback (submitAnswer_done (Data d) s) = f)"
  by (auto simp: submitAnswer_done_def split: option.splits)

text \<open>A response whose \<open>feedback\<close> field is the empty string.\<close>

theorem submitAnswer_done_feedback_witness:
  "feedback (submitAnswer_done (Data (Some [])) initial_home)
     = ''Good response! Keep practicing to improve further.''
   \<and> feedback (submitAnswer_done (Data (Some [])) initial_home) \<noteq> []
   \<and> showFeedback (submitAnswer_done (Data (Some [])) initial_home)"
  using submitAnswer_done_feedback [of "Some []" initial_home] by simp

section \<open>Properties of the reachable states\<close>

lemma timer_effect_fields [simp]:
  "currentStep (timer_effect old new) = currentStep new"
  "currentQuestionIndex (timer_effect old new) = currentQuestionIndex new"
  "questions (timer_effect old new) = questions new"
  "isLoading (timer_effect old new) = isLoading new"
  "showFeedback (timer_effect old new) = showFeedback new"
  by (simp_all add: timer_effect_def)

lemma render_fields [simp]:
  "page (render a s kept issued) = timer_effect (page a) s"
  "pending (render a s kept issued) = kept @ issued"
  by (simp_all add: render_def)

lemma run_Nil: "run [] = initial_app"
  by (simp add: run_def)

lemma run_snoc: "run (es @ [e]) = dispatch (run es) e"
  by (simp add: run_def)

lemma index_ok_dispatch:
  assumes ok: "index_ok (page a)"
  shows "index_ok (page (dispatch a e))"
proof (cases e)
  case (ClickGenerate session)
  with ok show ?thesis
    by (auto simp: index_ok_def handleGenerateQuestions_def)
next
  case (AuthUserSettles resolved)
  with ok show ?thesis
    by (auto simp: index_ok_def handleGenerateQuestions_registered_def
        split: option.splits call.splits)
next
  case (GenerateSettles r)
  with ok show ?thesis
    by (auto simp: index_ok_def handleGenerateQuestions_done_def Let_def
        split: option.splits reply.splits)
next
  case ClickStartMock
  with ok show ?thesis
    by (auto simp: index_ok_def startMockInterview_def)
next
  case ClickSubmit
  with ok show ?thesis
    by (auto simp: index_ok_def submitAnswer_def)
next
  case (FeedbackSettles r)
  with ok show ?thesis
    by (auto simp: index_ok_def submitAnswer_done_def split: option.splits reply.splits)
next
  case ClickFollowUp
  with ok show ?thesis
    by (auto simp: index_ok_def requestFollowUp_def)
next
  case (FollowUpSettles r)
  with ok show ?thesis
    by (auto simp: index_ok_def requestFollowUp_done_def split: option.splits reply.splits)
next
  case ClickNext
  with ok show ?thesis
    by (auto simp: index_ok_def nextQuestion_def)
next
  case ClickReset
  with ok show ?thesis
    by (auto simp: index_ok_def resetToHome_def)
qed (use ok in \<open>auto simp: index_ok_def\<close>)

lemma index_ok_run: "index_ok (page (run es))"
proof (induction es rule: rev_induct)
  case Nil
  show ?case by (simp add: run_Nil initial_app_def initial_home_def index_ok_def)
next
  case (snoc e es)
  then show ?case by (simp add: run_snoc index_ok_dispatch)
qed

lemma blank_job: "\<not> blank ''Software Engineer''"
  by (simp add: blank_def trim_def is_whitespace_def)

lemma blank_company: "\<not> blank ''Google''"
  by (simp add: blank_def trim_def is_whitespace_def)

lemma blank_answer: "\<not> blank ''I led a project''"
  by (simp add: blank_def trim_def is_whitespace_def)

lemma run_session_to_mock:
  "page (run (session_to_mock qs)) =
     initial_home\<lparr>jobRole := ''Software Engineer'', company := ''Google'', questions := qs,
       currentStep := Mock, ticking := True\<rparr>"
  "pending (run (session_to_mock qs)) = []"
  by (simp_all add: run_def session_to_mock_def initial_app_def initial_home_def render_def
      timer_effect_def handleGenerateQuestions_def handleGenerateQuestions_done_def
      startMockInterview_def blank_job blank_company generation_request_def)

text \<open>
  Claim C5, as the code has it. In every state the page can reach, when the step is
  \<open>mock\<close> the index is not negative, and it is a position of the question list whenever
  that list is not empty; with an empty list the index is 0.
\<close>

theorem mock_index_valid:
  "currentStep (page (run es)) = Mock \<Longrightarrow>
     0 \<le> currentQuestionIndex (page (run es))
     \<and> (currentQuestionIndex (page (run es)) < int (length (questions (page (run es))))
        \<or> (questions (page (run es)) = [] \<and> currentQuestionIndex (page (run es)) = 0))"
  using index_ok_run [of es] by (simp add: index_ok_def)

text \<open>
  Claim C5 as stated includes sessions whose generation stored no question. There the
  start button still enters step \<open>mock\<close> with index 0, which is not a position of the empty
  list.
\<close>

theorem mock_index_empty_questions_counterexample:
  "currentStep (page (run (session_to_mock []))) = Mock
   \<and> questions (page (run (session_to_mock []))) = []
   \<and> \<not> (0 \<le> currentQuestionIndex (page (run (session_to_mock [])))
        \<and> currentQuestionIndex (page (run (session_to_mock [])))
            < int (length (questions (page (run (session_to_mock []))))))"
  by (simp add: run_session_to_mock)

lemma run_second_question:
  "page (run (session_to_mock two_questions @
      [SetCurrentAnswer ''I led a project'', ClickSubmit,
       FeedbackSettles (Data (Some ''Clear and concrete.'')), ClickNext])) =
     initial_home\<lparr>jobRole := ''Software Engineer'', company := ''Google'',
       questions := two_questions, currentStep := Mock, currentQuestionIndex := 1,
       ticking := True\<rparr>"
proof -
  have "run (session_to_mock two_questions) =
      \<lparr>page = initial_home\<lparr>jobRole := ''Software Engineer'', company := ''Google'',
          questions := two_questions, currentStep := Mock, ticking := True\<rparr>, pending = []\<rparr>"
    by (simp add: run_session_to_mock)
  then show ?thesis
    by (simp add: run_def initial_home_def render_def timer_effect_def submitAnswer_def
        submitAnswer_done_def nextQuestion_def blank_answer two_questions_def
        current_question_def)
qed

text \<open>A session of two questions, after the first was answered and the next button
  pressed: the index is 1.\<close>

theorem mock_index_valid_witness:
  "currentStep (page (run (session_to_mock two_questions @
      [SetCurrentAnswer ''I led a project'', ClickSubmit,
       FeedbackSettles (Data (Some ''Clear and concrete.'')), ClickNext]))) = Mock
   \<and> currentQuestionIndex (page (run (session_to_mock two_questions @
      [SetCurrentAnswer ''I led a project'', ClickSubmit,
       FeedbackSettles (Data (Some ''Clear and concrete.'')), ClickNext]))) = 1
   \<and> currentQuestionIndex (page (run (session_to_mock two_questions @
      [SetCurrentAnswer ''I led a project'', ClickSubmit,
       FeedbackSettles (Data (Some ''Clear and concrete.'')), ClickNext])))
      < int (length (questions (page (run (session_to_mock two_questions @
      [SetCurrentAnswer ''I led a project'', ClickSubmit,
       FeedbackSettles (Data (Some ''Clear and concrete.'')), ClickNext])))))"
proof -
  let ?es = "session_to_mock two_questions @
      [SetCurrentAnswer ''I led a project'', ClickSubmit,
       FeedbackSettles (Data (Some ''Clear and concrete.'')), ClickNext]"
  have m: "currentStep (page (run ?es)) = Mock"
    and i: "currentQuestionIndex (page (run ?es)) = 1"
    by (simp_all add: run_second_question)
  from mock_index_valid [OF m] i
  have "currentQuestionIndex (page (run ?es)) < int (length (questions (page (run ?es))))"
    by auto
  with m i show ?thesis by simp
qed

lemma generation_calls_simps [simp]:
  "generation_calls [] = 0"
  "generation_calls (cs @ ds) = generation_calls cs + generation_calls ds"
  "generation_calls [AuthUser r] = 1"
  "generation_calls [GenerateQuestions r] = 1"
  "generation_calls [GenerateFeedback f] = 0"
  "generation_calls [GenerateFollowUp g] = 0"
  by (simp_all add: generation_calls_def is_generation_def)

lemma take_call_Some:
  "take_call k cs = Some (c, kept) \<Longrightarrow>
     k c \<and> generation_calls cs = generation_calls kept + (if is_generation c then 1 else 0)"
proof (induction cs arbitrary: kept)
  case Nil
  then show ?case by simp
next
  case (Cons d ds)
  show ?case
  proof (cases "k d")
    case True
    with Cons.prems show ?thesis
      by (auto simp: generation_calls_def)
  next
    case False
    with Cons.prems obtain kept' where
      t: "take_call k ds = Some (c, kept')" and k: "kept = d # kept'"
      by (auto split: option.splits)
    from Cons.IH [OF t] k show ?thesis
      by (auto simp: generation_calls_def)
  qed
qed

lemma take_auth:
  "take_call is_AuthUser cs = Some (c, kept) \<Longrightarrow> generation_calls cs = Suc (generation_calls kept)"
  by (drule take_call_Some) (cases c, auto simp: is_generation_def)

lemma take_generate:
  "take_call is_GenerateQuestions cs = Some (c, kept) \<Longrightarrow>
     generation_calls cs = Suc (generation_calls kept)"
  by (drule take_call_Some) (cases c, auto simp: is_generation_def)

lemma take_feedback:
  "take_call is_GenerateFeedback cs = Some (c, kept) \<Longrightarrow>
     generation_calls cs = generation_calls kept"
  by (drule take_call_Some) (cases c, auto simp: is_generation_def)

lemma take_followup:
  "take_call is_GenerateFollowUp cs = Some (c, kept) \<Longrightarrow>
     generation_calls cs = generation_calls kept"
  by (drule take_call_Some) (cases c, auto simp: is_generation_def)

lemma one_generation_dispatch:
  assumes ok: "one_generation a"
  shows "one_generation (dispatch a e)"
proof (cases e)
  case (ClickGenerate session)
  with ok show ?thesis
    by (auto simp: one_generation_def handleGenerateQuestions_def)
next
  case (AuthUserSettles resolved)
  with ok show ?thesis
    by (auto simp: one_generation_def handleGenerateQuestions_registered_def
        split: option.splits call.splits if_splits dest!: take_auth)
next
  case (GenerateSettles r)
  with ok show ?thesis
    by (auto simp: one_generation_def handleGenerateQuestions_done_def Let_def
        split: option.splits reply.splits if_splits dest!: take_generate)
next
  case ClickStartMock
  with ok show ?thesis
    by (auto simp: one_generation_def startMockInterview_def)
next
  case ClickSubmit
  with ok show ?thesis
    by (auto simp: one_generation_def submitAnswer_def)
next
  case (FeedbackSettles r)
  with ok show ?thesis
    by (auto simp: one_generation_def submitAnswer_done_def
        split: option.splits reply.splits if_splits dest!: take_feedback)
next
  case ClickFollowUp
  with ok show ?thesis
    by (auto simp: one_generation_def requestFollowUp_def)
next
  case (FollowUpSettles r)
  with ok show ?thesis
    by (auto simp: one_generation_def requestFollowUp_done_def
        split: option.splits reply.splits if_splits dest!: take_followup)
next
  case ClickNext
  with ok show ?thesis
    by (auto simp: one_generation_def nextQuestion_def)
next
  case ClickReset
  with ok show ?thesis
    by (auto simp: one_generation_def resetToHome_def)
qed (use ok in \<open>auto simp: one_generation_def\<close>)

lemma one_generation_run: "one_generation (run es)"
proof (induction es rule: rev_induct)
  case Nil
  show ?case by (simp add: run_Nil initial_app_def initial_home_def one_generation_def)
next
  case (snoc e es)
  then show ?case by (simp add: run_snoc one_generation_dispatch)
qed

lemma generate_le_generation:
  "length (filter is_GenerateQuestions cs) \<le> generation_calls cs"
  by (induction cs) (auto simp: generation_calls_def is_generation_def)

text \<open>
  Claim C6. While \<open>isLoading\<close> the generate button is disabled, so a click on it changes
  neither the page nor the calls in flight; and in every state the page can reach at most
  one generation call is in flight.
\<close>

theorem generate_single_flight:
  "(isLoading (page a) \<longrightarrow> dispatch a (ClickGenerate session) = a)
   \<and> length (filter is_GenerateQuestions (pending (run es))) \<le> 1"
proof -
  have "generation_calls (pending (run es)) \<le> 1"
    using one_generation_run [of es] by (simp add: one_generation_def)
  with generate_le_generation [of "pending (run es)"] show ?thesis
    by simp
qed

lemma run_generating:
  "run [SetJobRole ''Software Engineer'', SetCompany ''Google'', ClickGenerate None] =
     \<lparr>page = initial_home\<lparr>jobRole := ''Software Engineer'', company := ''Google'',
        isLoading := True\<rparr>,
      pending = [GenerateQuestions
        (generation_request None
           (initial_home\<lparr>jobRole := ''Software Engineer'', company := ''Google''\<rparr>))]\<rparr>"
  by (simp add: run_def initial_app_def initial_home_def render_def timer_effect_def
      handleGenerateQuestions_def blank_job blank_company)

text \<open>A second click right after the first, before the call has settled.\<close>

theorem generate_single_flight_witness:
  "isLoading (page (run [SetJobRole ''Software Engineer'', SetCompany ''Google'',
       ClickGenerate None]))
   \<and> dispatch (run [SetJobRole ''Software Engineer'', SetCompany ''Google'', ClickGenerate None])
        (ClickGenerate None)
      = run [SetJobRole ''Software Engineer'', SetCompany ''Google'', ClickGenerate None]
   \<and> length (filter is_GenerateQuestions (pending
        (run [SetJobRole ''Software Engineer'', SetCompany ''Google'', ClickGenerate None,
              ClickGenerate None]))) \<le> 1"
proof -
  let ?es = "[SetJobRole ''Software Engineer'', SetCompany ''Google'', ClickGenerate None]"
  have l: "isLoading (page (run ?es))"
    by (simp add: run_generating)
  from generate_single_flight [of "run ?es" None "?es @ [ClickGenerate None]"] l
  show ?thesis by simp
qed

text \<open>The guard is the button's \<open>disabled\<close> attribute: the handler itself does not read
  \<open>isLoading\<close>, and called directly with both fields filled in it issues a call.\<close>

lemma handleGenerateQuestions_issues:
  "\<not> blank (jobRole s) \<Longrightarrow> \<not> blank (company s) \<Longrightarrow>
     length (snd (handleGenerateQuestions session s)) = 1"
  by (simp add: handleGenerateQuestions_def)

end
